theory Spec2Isabelle
  imports Main "HOL-Library.AList" "HOL-Library.List_Lexorder" "HOL-Library.Product_Lexorder"
    "HOL-Library.Multiset" "HOL-Library.Sublist"
begin

section \<open>Python text\<close>

text \<open>
  A Python \<open>str\<close> is a sequence of Unicode code points, and \<open>len\<close>, slicing and
  \<open>read(n)\<close> of a text file all count code points. A code point is a natural number
  (Python itself only has those below \<open>0x110000\<close>); a byte on disk is a natural
  number below 256. String constants of the source are written with \<open>lit\<close>.
\<close>

type_synonym pystr = "nat list"
type_synonym bytes = "nat list"

definition lit :: "string \<Rightarrow> pystr" where
  "lit s = map of_char s"

text \<open>\<open>str(n)\<close> for a non-negative and for an arbitrary integer.\<close>

fun str_nat :: "nat \<Rightarrow> pystr" where
  "str_nat n = (if n < 10 then [48 + n] else str_nat (n div 10) @ [48 + n mod 10])"

declare str_nat.simps [simp del]

definition str_int :: "int \<Rightarrow> pystr" where
  "str_int i = (if i < 0 then 45 # str_nat (nat (- i)) else str_nat (nat i))"

text \<open>
  \<open>str.strip()\<close> without argument removes leading and trailing whitespace, which for
  Python is the set of code points below.
\<close>

definition is_space :: "nat \<Rightarrow> bool" where
  "is_space c \<longleftrightarrow>
     (9 \<le> c \<and> c \<le> 13) \<or> (28 \<le> c \<and> c \<le> 32) \<or> c = 133 \<or> c = 160 \<or> c = 5760 \<or>
     (8192 \<le> c \<and> c \<le> 8202) \<or> c = 8232 \<or> c = 8233 \<or> c = 8239 \<or> c = 8287 \<or> c = 12288"

definition strip :: "pystr \<Rightarrow> pystr" where
  "strip s = rev (dropWhile is_space (rev (dropWhile is_space s)))"

text \<open>\<open>sep.join(xs)\<close>.\<close>

fun join :: "pystr \<Rightarrow> pystr list \<Rightarrow> pystr" where
  "join sep [] = []"
| "join sep [x] = x"
| "join sep (x # y # ys) = x @ sep @ join sep (y # ys)"

subsection \<open>The UTF-8 codec\<close>

text \<open>
  Both tools open files with \<open>encoding="utf-8"\<close> and the default strict error
  handling: encoding raises \<open>UnicodeEncodeError\<close> on a surrogate code point
  (\<open>0xD800\<close> to \<open>0xDFFF\<close>), decoding raises \<open>UnicodeDecodeError\<close> on a byte sequence
  that is not the shortest encoding of a non-surrogate code point. \<open>None\<close> is the raise.
\<close>

definition is_surrogate :: "nat \<Rightarrow> bool" where
  "is_surrogate c \<longleftrightarrow> 55296 \<le> c \<and> c \<le> 57343"

definition encode_char :: "nat \<Rightarrow> bytes option" where
  "encode_char c =
     (if c < 128 then Some [c]
      else if c < 2048 then Some [192 + c div 64, 128 + c mod 64]
      else if c < 65536 then
        (if is_surrogate c then None
         else Some [224 + c div 4096, 128 + (c div 64) mod 64, 128 + c mod 64])
      else if c < 1114112 then
        Some [240 + c div 262144, 128 + (c div 4096) mod 64, 128 + (c div 64) mod 64,
              128 + c mod 64]
      else None)"

fun utf8_encode :: "pystr \<Rightarrow> bytes option" where
  "utf8_encode [] = Some []"
| "utf8_encode (c # cs) =
     (case encode_char c of
        None \<Rightarrow> None
      | Some bs \<Rightarrow> (case utf8_encode cs of None \<Rightarrow> None | Some r \<Rightarrow> Some (bs @ r)))"

definition is_cont :: "nat \<Rightarrow> bool" where
  "is_cont b \<longleftrightarrow> 128 \<le> b \<and> b < 192"

text \<open>
  One code point from the front of a byte sequence, with the bytes that remain.
\<close>

definition decode_char :: "bytes \<Rightarrow> (nat \<times> bytes) option" where
  "decode_char bs =
     (case bs of
        [] \<Rightarrow> None
      | b0 # r0 \<Rightarrow>
          if b0 < 128 then Some (b0, r0)
          else if 194 \<le> b0 \<and> b0 < 224 then
            (case r0 of
               b1 # r1 \<Rightarrow>
                 if is_cont b1 then Some ((b0 - 192) * 64 + (b1 - 128), r1) else None
             | _ \<Rightarrow> None)
          else if 224 \<le> b0 \<and> b0 < 240 then
            (case r0 of
               b1 # b2 # r2 \<Rightarrow>
                 let c = (b0 - 224) * 4096 + (b1 - 128) * 64 + (b2 - 128)
                 in if is_cont b1 \<and> is_cont b2 \<and> 2048 \<le> c \<and> \<not> is_surrogate c
                    then Some (c, r2) else None
             | _ \<Rightarrow> None)
          else if 240 \<le> b0 \<and> b0 < 245 then
            (case r0 of
               b1 # b2 # b3 # r3 \<Rightarrow>
                 let c = (b0 - 240) * 262144 + (b1 - 128) * 4096 + (b2 - 128) * 64 + (b3 - 128)
                 in if is_cont b1 \<and> is_cont b2 \<and> is_cont b3 \<and> 65536 \<le> c \<and> c < 1114112
                    then Some (c, r3) else None
             | _ \<Rightarrow> None)
          else None)"

lemma decode_char_shorter: "decode_char bs = Some (c, r) \<Longrightarrow> length r < length bs"
  by (auto simp: decode_char_def Let_def split: list.splits if_splits)

function utf8_decode :: "bytes \<Rightarrow> pystr option" where
  "utf8_decode bs =
     (if bs = [] then Some []
      else case decode_char bs of
             None \<Rightarrow> None
           | Some (c, r) \<Rightarrow> (case utf8_decode r of None \<Rightarrow> None | Some cs \<Rightarrow> Some (c # cs)))"
  by pat_completeness auto
termination
  by (relation "measure length") (auto dest: decode_char_shorter)

declare utf8_decode.simps [simp del]

text \<open>
  A file opened for reading with the default \<open>newline=None\<close> is in universal-newlines
  mode: \<open>\r\n\<close> and a lone \<open>\r\<close> reach the caller as \<open>\n\<close>. (On writing, \<open>\n\<close> becomes
  \<open>os.linesep\<close>, which on POSIX is \<open>\n\<close> itself: writing changes nothing.)
\<close>

fun universal_newlines :: "pystr \<Rightarrow> pystr" where
  "universal_newlines [] = []"
| "universal_newlines [c] = [if c = 13 then 10 else c]"
| "universal_newlines (c # d # cs) =
     (if c = 13 \<and> d = 10 then 10 # universal_newlines cs
      else if c = 13 then 10 # universal_newlines (d # cs)
      else c # universal_newlines (d # cs))"

section \<open>The operating system as the tools see it\<close>

text \<open>
  The tools of \<open>agent.py\<close> reach the outside world through \<open>open\<close>, \<open>os.makedirs\<close>,
  \<open>os.scandir\<close>, \<open>os.path.exists\<close>, \<open>os.unlink\<close>, \<open>tempfile\<close> and \<open>subprocess.run\<close>.
  The model is a POSIX file tree without symbolic links and permission bits: an
  association list from absolute paths (lists of components, the root being the empty
  list) to nodes, and the working directory. A node is a regular file with its bytes, a
  directory, or something that is neither (a socket, a device). Every failure of a call
  is the exception Python raises for it; \<open>exc_str\<close> is \<open>str(exc)\<close>, text that the
  Python runtime makes up and that the model takes as given.
\<close>

datatype exn =
    FileNotFoundError pystr
  | NotADirectoryError pystr
  | IsADirectoryError pystr
  | FileExistsError pystr
  | OSError pystr
  | ValueError
  | UnicodeEncodeError
  | UnicodeDecodeError
  | JSONDecodeError
  | AttributeError
  | OtherException pystr

datatype node = File bytes | Dir | Special

record world =
  tree :: "(pystr list \<times> node) list"
  cwd :: "pystr list"
  exc_str :: "exn \<Rightarrow> pystr"

definition node_at :: "world \<Rightarrow> pystr list \<Rightarrow> node option" where
  "node_at w ap = (if ap = [] then Some Dir else map_of (tree w) ap)"

definition put :: "world \<Rightarrow> pystr list \<Rightarrow> node \<Rightarrow> world" where
  "put w ap n = w\<lparr>tree := AList.update ap n (tree w)\<rparr>"

definition remove :: "world \<Rightarrow> pystr list \<Rightarrow> world" where
  "remove w ap = w\<lparr>tree := AList.delete ap (tree w)\<rparr>"

subsection \<open>Path names\<close>

fun split_slash :: "pystr \<Rightarrow> pystr \<Rightarrow> pystr list" where
  "split_slash acc [] = [rev acc]"
| "split_slash acc (c # cs) =
     (if c = 47 then rev acc # split_slash [] cs else split_slash (c # acc) cs)"

text \<open>
  The components of a path name; empty components (doubled slashes) are skipped and a
  trailing slash stands for a final \<open>.\<close>, which asks for a directory.
\<close>

definition components :: "pystr \<Rightarrow> pystr list" where
  "components p =
     filter (\<lambda>c. c \<noteq> []) (split_slash [] p) @ (if p \<noteq> [] \<and> last p = 47 then [lit ''.''] else [])"

text \<open>
  Walking the components from a directory: every component is looked up in a directory
  that must exist (\<open>ENOENT\<close> otherwise) and be a directory (\<open>ENOTDIR\<close> otherwise). The
  node the whole path names is not looked at here.
\<close>

fun walk :: "world \<Rightarrow> pystr \<Rightarrow> pystr list \<Rightarrow> pystr list \<Rightarrow> exn + pystr list" where
  "walk w p cur [] = Inr cur"
| "walk w p cur (c # cs) =
     (case node_at w cur of
        None \<Rightarrow> Inl (FileNotFoundError p)
      | Some Dir \<Rightarrow>
          walk w p (if c = lit ''.'' then cur else if c = lit ''..'' then butlast cur else cur @ [c]) cs
      | Some _ \<Rightarrow> Inl (NotADirectoryError p))"

definition start_dir :: "world \<Rightarrow> pystr \<Rightarrow> pystr list" where
  "start_dir w p = (if p \<noteq> [] \<and> hd p = 47 then [] else cwd w)"

text \<open>
  A path with an embedded NUL never reaches the system (\<open>ValueError\<close>); the empty path
  names nothing.
\<close>

definition resolve :: "world \<Rightarrow> pystr \<Rightarrow> exn + pystr list" where
  "resolve w p =
     (if 0 \<in> set p then Inl ValueError
      else if p = [] then Inl (FileNotFoundError p)
      else walk w p (start_dir w p) (components p))"

text \<open>\<open>os.path.dirname\<close> (\<open>posixpath\<close>): up to the last slash, trailing slashes removed
  unless nothing else is left.\<close>

definition dirname :: "pystr \<Rightarrow> pystr" where
  "dirname p =
     (let head = rev (dropWhile (\<lambda>c. c \<noteq> 47) (rev p))
      in if head \<noteq> [] \<and> \<not> (\<forall>c \<in> set head. c = 47)
         then rev (dropWhile (\<lambda>c. c = 47) (rev head)) else head)"

subsection \<open>System calls\<close>

text \<open>\<open>open(p, "r")\<close>: the bytes of the regular file at \<open>p\<close>.\<close>

definition os_open_r :: "world \<Rightarrow> pystr \<Rightarrow> exn + bytes" where
  "os_open_r w p =
     (case resolve w p of
        Inl e \<Rightarrow> Inl e
      | Inr ap \<Rightarrow>
          (case node_at w ap of
             None \<Rightarrow> Inl (FileNotFoundError p)
           | Some (File bs) \<Rightarrow> Inr bs
           | Some Dir \<Rightarrow> Inl (IsADirectoryError p)
           | Some Special \<Rightarrow> Inl (OSError p)))"

text \<open>
  \<open>open(p, "w")\<close>: the file is created, or truncated when it exists, at once; the result
  is the place opened and the world with the empty file.
\<close>

definition os_open_w :: "world \<Rightarrow> pystr \<Rightarrow> exn + (pystr list \<times> world)" where
  "os_open_w w p =
     (case resolve w p of
        Inl e \<Rightarrow> Inl e
      | Inr ap \<Rightarrow>
          (case node_at w ap of
             Some Dir \<Rightarrow> Inl (IsADirectoryError p)
           | Some Special \<Rightarrow> Inl (OSError p)
           | Some (File _) \<Rightarrow> Inr (ap, put w ap (File []))
           | None \<Rightarrow>
               (case node_at w (butlast ap) of
                  None \<Rightarrow> Inl (FileNotFoundError p)
                | Some Dir \<Rightarrow> Inr (ap, put w ap (File []))
                | Some _ \<Rightarrow> Inl (NotADirectoryError p))))"

text \<open>
  \<open>os.makedirs(p, exist_ok=True)\<close>: every missing directory along \<open>p\<close> is created, left
  to right. An existing component that is not a directory stops it, and the directories
  made before stay.
\<close>

fun mkdirs :: "world \<Rightarrow> pystr \<Rightarrow> pystr list \<Rightarrow> pystr list \<Rightarrow> exn option \<times> world" where
  "mkdirs w p cur [] = (None, w)"
| "mkdirs w p cur (c # cs) =
     (case node_at w cur of
        None \<Rightarrow> (Some (FileNotFoundError p), w)
      | Some Dir \<Rightarrow>
          if c = lit ''.'' then mkdirs w p cur cs
          else if c = lit ''..'' then mkdirs w p (butlast cur) cs
          else (case node_at w (cur @ [c]) of
                  None \<Rightarrow> mkdirs (put w (cur @ [c]) Dir) p (cur @ [c]) cs
                | Some Dir \<Rightarrow> mkdirs w p (cur @ [c]) cs
                | Some _ \<Rightarrow>
                    (Some (if cs = [] then FileExistsError p else NotADirectoryError p), w))
      | Some _ \<Rightarrow> (Some (NotADirectoryError p), w))"

definition os_makedirs :: "world \<Rightarrow> pystr \<Rightarrow> exn option \<times> world" where
  "os_makedirs w p =
     (if 0 \<in> set p then (Some ValueError, w)
      else mkdirs w p (start_dir w p) (components p))"

text \<open>
  \<open>os.scandir(p)\<close>: the entries of a directory, in the order the system keeps them. Of
  a \<open>DirEntry\<close> the tool reads \<open>name\<close>, \<open>is_dir()\<close>, \<open>is_file()\<close> and, for a file only,
  \<open>stat().st_size\<close>.
\<close>

record dir_entry =
  name :: pystr
  is_dir :: bool
  is_file :: bool
  st_size :: nat

definition entry_of :: "pystr \<Rightarrow> node \<Rightarrow> dir_entry" where
  "entry_of n nd =
     (case nd of
        File bs \<Rightarrow> \<lparr>name = n, is_dir = False, is_file = True, st_size = length bs\<rparr>
      | Dir \<Rightarrow> \<lparr>name = n, is_dir = True, is_file = False, st_size = 0\<rparr>
      | Special \<Rightarrow> \<lparr>name = n, is_dir = False, is_file = False, st_size = 0\<rparr>)"

definition children :: "world \<Rightarrow> pystr list \<Rightarrow> dir_entry list" where
  "children w ap =
     map (\<lambda>(q, nd). entry_of (last q) nd)
       (filter (\<lambda>(q, nd). q \<noteq> [] \<and> butlast q = ap) (AList.clearjunk (tree w)))"

definition os_scandir :: "world \<Rightarrow> pystr \<Rightarrow> exn + dir_entry list" where
  "os_scandir w p =
     (case resolve w p of
        Inl e \<Rightarrow> Inl e
      | Inr ap \<Rightarrow>
          (case node_at w ap of
             None \<Rightarrow> Inl (FileNotFoundError p)
           | Some Dir \<Rightarrow> Inr (children w ap)
           | Some _ \<Rightarrow> Inl (NotADirectoryError p)))"

text \<open>\<open>os.path.exists\<close> is false on every failure; \<open>os.unlink\<close> refuses a directory.\<close>

definition os_path_exists :: "world \<Rightarrow> pystr \<Rightarrow> bool" where
  "os_path_exists w p =
     (case resolve w p of Inl e \<Rightarrow> False | Inr ap \<Rightarrow> node_at w ap \<noteq> None)"


definition os_unlink :: "world \<Rightarrow> pystr \<Rightarrow> exn + world" where
  "os_unlink w p =
     (case resolve w p of
        Inl e \<Rightarrow> Inl e
      | Inr ap \<Rightarrow>
          (case node_at w ap of
             None \<Rightarrow> Inl (FileNotFoundError p)
           | Some Dir \<Rightarrow> Inl (IsADirectoryError p)
           | Some _ \<Rightarrow> Inr (remove w ap)))"

text \<open>
  \<open>tempfile.NamedTemporaryFile(delete=False)\<close> tries random names until one is free and
  creates the file there; the names it would try are the environment's choice. Any
  failure other than a taken name ends the search. The result is the name of the file
  (\<open>f.name\<close>) and the place of the open file.
\<close>

fun mkstemp :: "world \<Rightarrow> pystr list \<Rightarrow> (exn + pystr \<times> pystr list) \<times> world" where
  "mkstemp w [] = (Inl (FileExistsError []), w)"
| "mkstemp w (n # ns) =
     (case resolve w n of
        Inl e \<Rightarrow> (Inl e, w)
      | Inr ap \<Rightarrow>
          (case node_at w ap of
             Some _ \<Rightarrow> mkstemp w ns
           | None \<Rightarrow>
               (case node_at w (butlast ap) of
                  None \<Rightarrow> (Inl (FileNotFoundError n), w)
                | Some Dir \<Rightarrow> (Inr (n, ap), put w ap (File []))
                | Some _ \<Rightarrow> (Inl (NotADirectoryError n), w))))"

text \<open>
  \<open>subprocess.run(["python", tmp_path], capture_output=True, text=True, timeout=30)\<close>
  ends in one of three ways: the child exits with a return code and its captured output,
  the timeout expires (\<open>TimeoutExpired\<close>, the child killed), or the call raises something
  else (no interpreter to start, output that does not decode). What the script does to
  the file tree meanwhile is not the tool's to decide: the environment gives the outcome
  and the world the child leaves behind.
\<close>

datatype proc_outcome =
    Completed int pystr pystr
  | TimeoutExpired
  | Raised exn

record env =
  tmp_names :: "pystr list"
  run_python :: "world \<Rightarrow> pystr \<Rightarrow> proc_outcome \<times> world"

section \<open>The tools of \<open>agent.py\<close>\<close>

text \<open>
  A tool call returns \<open>Inr\<close> the result string, or \<open>Inl\<close> an exception that leaves the
  tool function, together with the world it leaves.
\<close>

subsection \<open>\<open>read_file\<close>\<close>

text \<open>\<open>with open(file_path, "r", encoding="utf-8") as f: data = f.read(n)\<close>\<close>

definition read_text :: "world \<Rightarrow> pystr \<Rightarrow> nat \<Rightarrow> exn + pystr" where
  "read_text w file_path n =
     (case os_open_r w file_path of
        Inl e \<Rightarrow> Inl e
      | Inr bs \<Rightarrow>
          (case utf8_decode bs of
             None \<Rightarrow> Inl UnicodeDecodeError
           | Some s \<Rightarrow> Inr (take n (universal_newlines s))))"

definition read_file :: "world \<Rightarrow> pystr \<Rightarrow> exn + pystr" where
  "read_file w file_path =
     (case read_text w file_path 12000 of
        Inr data \<Rightarrow> Inr (if data \<noteq> [] then data else lit ''(empty file)'')
      | Inl (FileNotFoundError _) \<Rightarrow>
          Inr (lit ''Error: file not found '' @ [8211] @ lit '' '' @ file_path)
      | Inl exc \<Rightarrow> Inr (lit ''Error: '' @ exc_str w exc))"

subsection \<open>\<open>write_file\<close>\<close>

text \<open>
  \<open>with open(file_path, "w", encoding="utf-8") as f: f.write(content)\<close>: the file is
  there and empty as soon as it is open; \<open>write\<close> encodes the text first and raises on
  text that has no encoding.
\<close>

definition write_text :: "world \<Rightarrow> pystr \<Rightarrow> pystr \<Rightarrow> exn option \<times> world" where
  "write_text w file_path content =
     (case os_open_w w file_path of
        Inl e \<Rightarrow> (Some e, w)
      | Inr (ap, w') \<Rightarrow>
          (case utf8_encode content of
             None \<Rightarrow> (Some UnicodeEncodeError, w')
           | Some bs \<Rightarrow> (None, put w' ap (File bs))))"

text \<open>The \<open>try\<close> block: the exception it raises, if any, and the world it leaves.\<close>

definition write_body :: "world \<Rightarrow> pystr \<Rightarrow> pystr \<Rightarrow> exn option \<times> world" where
  "write_body w file_path content =
     (let parent = dirname file_path
      in case (if parent \<noteq> [] then os_makedirs w parent else (None, w)) of
           (Some exc, w1) \<Rightarrow> (Some exc, w1)
         | (None, w1) \<Rightarrow> write_text w1 file_path content)"

definition write_file :: "world \<Rightarrow> pystr \<Rightarrow> pystr \<Rightarrow> (exn + pystr) \<times> world" where
  "write_file w file_path content =
     (case write_body w file_path content of
        (None, w') \<Rightarrow>
          (Inr (lit ''Wrote '' @ str_nat (length content) @ lit '' chars to '' @ file_path), w')
      | (Some exc, w') \<Rightarrow> (Inr (lit ''Error: '' @ exc_str w exc), w'))"

subsection \<open>\<open>list_files\<close>\<close>

text \<open>The sort key \<open>(not e.is_dir(), e.name)\<close> and one line of the listing.\<close>

definition entry_key :: "dir_entry \<Rightarrow> bool \<times> pystr" where
  "entry_key e = (\<not> is_dir e, name e)"

definition entry_line :: "dir_entry \<Rightarrow> pystr" where
  "entry_line e =
     (let tag = (if is_dir e then lit ''DIR '' else lit ''FILE'');
          size = (if is_file e then lit '' ('' @ str_nat (st_size e) @ lit '' B)'' else [])
      in lit ''['' @ tag @ lit ''] '' @ name e @ size)"

definition list_files :: "world \<Rightarrow> pystr \<Rightarrow> exn + pystr" where
  "list_files w directory =
     (case os_scandir w directory of
        Inl exc \<Rightarrow> Inr (lit ''Error: '' @ exc_str w exc)
      | Inr es \<Rightarrow>
          (let entries = sort_key entry_key es;
               lines = map entry_line entries
           in Inr (if lines \<noteq> [] then join [10] lines else lit ''(empty directory)'')))"

subsection \<open>\<open>execute_python\<close>\<close>

text \<open>
  The \<open>finally\<close> clause, run with the value of \<open>tmp_path\<close> and the result that the
  \<open>try\<close> or an \<open>except\<close> clause is about to return. It stands outside every handler: what
  \<open>os.unlink\<close> raises there replaces the result and leaves the function.
\<close>

definition cleanup :: "world \<Rightarrow> pystr option \<Rightarrow> pystr \<Rightarrow> (exn + pystr) \<times> world" where
  "cleanup w tmp_path result =
     (case tmp_path of
        None \<Rightarrow> (Inr result, w)
      | Some p \<Rightarrow>
          if p \<noteq> [] \<and> os_path_exists w p then
            (case os_unlink w p of
               Inl e \<Rightarrow> (Inl e, w)
             | Inr w' \<Rightarrow> (Inr result, w'))
          else (Inr result, w))"

text \<open>
  The body: the scratch file is created, the code written to it, and only then is
  \<open>tmp_path\<close> set; leaving the \<open>with\<close> block closes the file. An exception before the
  assignment is handled with \<open>tmp_path\<close> still \<open>None\<close>.
\<close>

definition execute_python :: "env \<Rightarrow> world \<Rightarrow> pystr \<Rightarrow> (exn + pystr) \<times> world" where
  "execute_python ev w code =
     (case mkstemp w (tmp_names ev) of
        (Inl exc, w1) \<Rightarrow> cleanup w1 None (lit ''Error: '' @ exc_str w exc)
      | (Inr (f_name, ap), w1) \<Rightarrow>
          (case utf8_encode code of
             None \<Rightarrow> cleanup w1 None (lit ''Error: '' @ exc_str w UnicodeEncodeError)
           | Some bs \<Rightarrow>
               (case run_python ev (put w1 ap (File bs)) f_name of
                  (Completed returncode out err, w2) \<Rightarrow>
                    cleanup w2 (Some f_name)
                      (if returncode = 0
                       then (if strip out \<noteq> [] then strip out else lit ''(no output)'')
                       else lit ''Exit '' @ str_int returncode @ lit '':'' @ [10] @ strip err)
                | (TimeoutExpired, w2) \<Rightarrow>
                    cleanup w2 (Some f_name) (lit ''Error: execution timed out (30 s limit)'')
                | (Raised exc, w2) \<Rightarrow>
                    cleanup w2 (Some f_name) (lit ''Error: '' @ exc_str w exc))))"

section \<open>The streaming transport of \<open>main.py\<close>\<close>

subsection \<open>Inbound frames\<close>

text \<open>
  A text frame is given with what \<open>json.loads\<close> makes of it: it raises
  \<open>JSONDecodeError\<close>, or returns a JSON value. An object is the list of its members as
  written; of two members with one key Python's \<open>dict\<close> keeps the later.
\<close>

datatype json =
    JNull
  | JBool bool
  | JNumber pystr
  | JString pystr
  | JArray "json list"
  | JObject "(pystr \<times> json) list"

datatype frame = NotJson | Json json

text \<open>
  \<open>data = json.loads(raw); user_text = data.get("message", "").strip()\<close>. Only a
  \<open>dict\<close> has \<open>get\<close> and only a \<open>str\<close> has \<open>strip\<close>: anything else raises
  \<open>AttributeError\<close>.
\<close>

definition user_text_of :: "frame \<Rightarrow> exn + pystr" where
  "user_text_of fr =
     (case fr of
        NotJson \<Rightarrow> Inl JSONDecodeError
      | Json (JObject members) \<Rightarrow>
          (case map_of (rev members) (lit ''message'') of
             None \<Rightarrow> Inr (strip [])
           | Some (JString s) \<Rightarrow> Inr (strip s)
           | Some _ \<Rightarrow> Inl AttributeError)
      | Json _ \<Rightarrow> Inl AttributeError)"

subsection \<open>One turn\<close>

text \<open>
  The agent is the compiled LangGraph graph, a library object: for the history it is
  given, \<open>astream_events\<close> yields events and then ends, or raises. Of an event the
  handler reads the kind, the name, the chunk content (a string, or a list of content
  parts), \<open>str\<close> of a tool's input or output, and the messages of the final state. The
  traceback of a raise is the text \<open>traceback.format_exc()\<close> gives.
\<close>

datatype message = HumanMessage pystr | AgentMessage pystr

datatype content = Text pystr | Parts

datatype agent_event =
    ChatModelStream content
  | ToolStart pystr pystr
  | ToolEnd pystr pystr
  | ChainEnd pystr "message list option"
  | OtherEvent

record agent_run =
  events :: "agent_event list"
  raised :: "pystr option"

type_synonym agent = "message list \<Rightarrow> agent_run"

datatype stream_event =
    Token pystr
  | ToolStartEvent pystr pystr
  | ToolEndEvent pystr pystr
  | ErrorEvent pystr
  | Done

text \<open>What the loop body sends for one event, and what it does to the history.\<close>

fun on_event :: "agent_event \<Rightarrow> stream_event list" where
  "on_event (ChatModelStream c) =
     (case c of Text s \<Rightarrow> if s \<noteq> [] then [Token s] else [] | Parts \<Rightarrow> [])"
| "on_event (ToolStart nm tool_input) = [ToolStartEvent nm (take 400 tool_input)]"
| "on_event (ToolEnd nm tool_output) = [ToolEndEvent nm (take 600 tool_output)]"
| "on_event (ChainEnd nm output) = []"
| "on_event OtherEvent = []"

fun on_event_history :: "message list \<Rightarrow> agent_event \<Rightarrow> message list" where
  "on_event_history h (ChainEnd nm (Some msgs)) = (if nm = lit ''LangGraph'' then msgs else h)"
| "on_event_history h ev = h"

text \<open>
  The inner \<open>try\<close>: the events are handled in order and \<open>done\<close> is sent; if the stream
  raises, the handler sends \<open>error\<close> with the first 600 characters of the traceback, and
  \<open>done\<close>. The frames are sent on a connection that takes them.
\<close>

definition run_turn :: "agent \<Rightarrow> message list \<Rightarrow> stream_event list \<times> message list" where
  "run_turn ag h =
     (let r = ag h
      in (concat (map on_event (events r)) @
            (case raised r of None \<Rightarrow> [Done] | Some err \<Rightarrow> [ErrorEvent (take 600 err), Done]),
          foldl on_event_history h (events r)))"

subsection \<open>The connection\<close>

text \<open>
  The outer loop over what \<open>receive_text\<close> brings: a text frame, or the client's
  disconnect (\<open>WebSocketDisconnect\<close>, the one exception the outer \<open>try\<close> handles). The
  handler is left waiting for the next frame, has returned after a disconnect, or has
  been left by an exception.
\<close>

datatype inbound = TextFrame frame | Disconnect

datatype status = Awaiting | Returned | Left exn

record connection =
  status :: status
  history :: "message list"
  sent :: "stream_event list"

fun serve :: "agent \<Rightarrow> message list \<Rightarrow> stream_event list \<Rightarrow> inbound list \<Rightarrow> connection" where
  "serve ag h out [] = \<lparr>status = Awaiting, history = h, sent = out\<rparr>"
| "serve ag h out (Disconnect # rest) = \<lparr>status = Returned, history = h, sent = out\<rparr>"
| "serve ag h out (TextFrame fr # rest) =
     (case user_text_of fr of
        Inl exc \<Rightarrow> \<lparr>status = Left exc, history = h, sent = out\<rparr>
      | Inr user_text \<Rightarrow>
          if user_text = [] then serve ag h out rest
          else (case run_turn ag (h @ [HumanMessage user_text]) of
                  (evs, h') \<Rightarrow> serve ag h' (out @ evs) rest))"

definition websocket_endpoint :: "agent \<Rightarrow> inbound list \<Rightarrow> connection" where
  "websocket_endpoint ag frames = serve ag [] [] frames"

section \<open>Concrete worlds\<close>

text \<open>
  \<open>str(exc)\<close>: the \<open>ValueError\<close> of a path with an embedded NUL as CPython words it.
  The wording of the other exceptions plays no part in any statement below and is
  abridged (the last words of the \<open>UnicodeEncodeError\<close> of a surrogate, an errno tag).
\<close>

definition cpython_str :: "exn \<Rightarrow> pystr" where
  "cpython_str e =
     (case e of
        ValueError \<Rightarrow> lit ''embedded null byte''
      | UnicodeEncodeError \<Rightarrow> lit ''surrogates not allowed''
      | _ \<Rightarrow> lit ''[Errno]'')"

text \<open>An empty file tree with the root as working directory.\<close>

definition empty_world :: world where
  "empty_world = \<lparr>tree = [], cwd = [], exc_str = cpython_str\<rparr>"

text \<open>
  A tree with the directory \<open>proj\<close>, holding the directories \<open>b\<close> and \<open>a\<close> and the
  files \<open>z.txt\<close> and \<open>y.txt\<close> in this order, and the empty directory \<open>void\<close>.
\<close>

definition project_world :: world where
  "project_world =
     \<lparr>tree = [([lit ''proj''], Dir),
              ([lit ''proj'', lit ''b''], Dir),
              ([lit ''proj'', lit ''z.txt''], File (lit ''zed'')),
              ([lit ''proj'', lit ''a''], Dir),
              ([lit ''proj'', lit ''y.txt''], File []),
              ([lit ''proj'', lit ''a'', lit ''inner.txt''], File (lit ''x'')),
              ([lit ''void''], Dir)],
      cwd = [], exc_str = cpython_str\<rparr>"

text \<open>
  Two agents: one streams the answer \<open>4\<close> between an empty chunk and a chunk of
  content parts and ends with the final state; the other starts a tool and raises.
\<close>

definition answering_agent :: agent where
  "answering_agent h =
     \<lparr>events = [OtherEvent, ChatModelStream (Text (lit ''4'')), ChatModelStream Parts,
                ChatModelStream (Text []),
                ChainEnd (lit ''LangGraph'') (Some (h @ [AgentMessage (lit ''4'')]))],
      raised = None\<rparr>"

definition failing_agent :: agent where
  "failing_agent h =
     \<lparr>events = [ToolStart (lit ''list_files'') (lit ''{}'')],
      raised = Some (lit ''Traceback (most recent call last)'')\<rparr>"

text \<open>
  A tree with the temporary directory \<open>/tmp\<close>, the one name \<open>tempfile\<close> tries, and two
  environments for \<open>execute_python\<close>. In the first the child prints \<open>ok\<close> and leaves
  the tree alone. In the second the child is the script that removes its own file and
  makes a directory of the same name, and exits with code 0.
\<close>

definition tmp_world :: world where
  "tmp_world = \<lparr>tree = [([lit ''tmp''], Dir)], cwd = [], exc_str = cpython_str\<rparr>"

definition scratch_name :: pystr where
  "scratch_name = lit ''/tmp/tmpk3x9.py''"

definition scratch_place :: "pystr list" where
  "scratch_place = [lit ''tmp'', lit ''tmpk3x9.py'']"

definition quiet_env :: env where
  "quiet_env =
     \<lparr>tmp_names = [scratch_name],
      run_python = (\<lambda>w p. (Completed 0 (lit ''ok'' @ [10]) [], w))\<rparr>"

definition self_replacing_script :: pystr where
  "self_replacing_script =
     lit ''import os, sys'' @ [10] @ lit ''os.unlink(sys.argv[0])'' @ [10] @
     lit ''os.mkdir(sys.argv[0])''"

definition self_replacing_env :: env where
  "self_replacing_env =
     \<lparr>tmp_names = [scratch_name],
      run_python = (\<lambda>w p. case resolve w p of
                            Inl e \<Rightarrow> (Raised e, w)
                          | Inr ap \<Rightarrow> (Completed 0 [] [], put (remove w ap) ap Dir))\<rparr>"

section \<open>Properties of the codec and of the file tree\<close>

subsection \<open>Decoding undoes encoding\<close>








subsection \<open>A file that was written is the file that is read\<close>



lemma node_at_put_same: "ap \<noteq> [] \<Longrightarrow> node_at (put w ap n) ap = Some n"
  by (simp add: node_at_def put_def update_conv')

lemma node_at_put_other: "q \<noteq> ap \<Longrightarrow> node_at (put w ap n) q = node_at w q"
  by (simp add: node_at_def put_def update_conv')











section \<open>Reading back what was written\<close>




text \<open>
  The two other ways in which a write is not read back as it was: a carriage return
  comes back as a line feed, and a write that fails (here, to the path of a directory)
  leaves nothing to read.
\<close>

lemma carriage_return_read_back:
  "read_file (snd (write_file empty_world (lit ''notes.txt'') [97, 13, 98])) (lit ''notes.txt'') =
     Inr [97, 10, 98]"
  by code_simp

lemma write_to_directory_fails:
  "fst (write_body project_world (lit ''proj'') (lit ''hi'')) =
     Some (IsADirectoryError (lit ''proj'')) \<and>
   read_file (snd (write_file project_world (lit ''proj'') (lit ''hi''))) (lit ''proj'') =
     Inr (lit ''Error: [Errno]'')"
  by code_simp

section \<open>What \<open>write_file\<close> reports\<close>



lemma utf8_encode_ascii: "\<forall>x \<in> set c. x < 128 \<Longrightarrow> utf8_encode c = Some c"
  by (induction c) (auto simp: encode_char_def)




section \<open>Failures as result strings\<close>


lemma write_file_returns: "\<exists>s. fst (write_file w p c) = Inr s"
  by (simp add: write_file_def split: prod.splits option.splits)

lemma list_files_returns: "\<exists>s. list_files w d = Inr s"
  by (simp add: list_files_def Let_def split: sum.splits)




section \<open>The directory listing\<close>


lemma join_Cons_not_Nil: "x \<noteq> [] \<Longrightarrow> join sep (x # xs) \<noteq> []"
  by (cases xs) auto







section \<open>The events of a turn\<close>

lemma on_event_not_done: "Done \<notin> set (on_event e)"
  by (cases e) (auto split: content.splits)

lemma on_event_not_error: "ErrorEvent m \<notin> set (on_event e)"
  by (cases e) (auto split: content.splits)

lemma body_not_done: "Done \<notin> set (concat (map on_event es))"
  by (simp add: on_event_not_done)

lemma body_not_error: "ErrorEvent m \<notin> set (concat (map on_event es))"
  by (simp add: on_event_not_error)

lemma run_turn_shape:
  "fst (run_turn ag h) =
     concat (map on_event (events (ag h))) @
       (case raised (ag h) of None \<Rightarrow> [Done] | Some err \<Rightarrow> [ErrorEvent (take 600 err), Done])"
  by (simp add: run_turn_def Let_def)

lemma tail_props:
  assumes "Done \<notin> set pre" "\<forall>m. ErrorEvent m \<notin> set pre"
    and "suf = [Done] \<or> (\<exists>m. suf = [ErrorEvent m, Done])"
  shows "length (filter (\<lambda>e. e = Done) (pre @ suf)) = 1"
    and "pre @ suf \<noteq> []" and "last (pre @ suf) = Done"
    and "\<forall>i < length (pre @ suf). (\<exists>m. (pre @ suf) ! i = ErrorEvent m) \<longrightarrow>
            Suc i < length (pre @ suf) \<and> (pre @ suf) ! Suc i = Done"
proof -
  have f: "filter (\<lambda>e. e = Done) pre = []" using assms(1) by (induction pre) auto
  show "length (filter (\<lambda>e. e = Done) (pre @ suf)) = 1" using assms(3) f by auto
  show "pre @ suf \<noteq> []" using assms(3) by auto
  show "last (pre @ suf) = Done" using assms(3) by auto
  show "\<forall>i < length (pre @ suf). (\<exists>m. (pre @ suf) ! i = ErrorEvent m) \<longrightarrow>
            Suc i < length (pre @ suf) \<and> (pre @ suf) ! Suc i = Done"
  proof (intro allI impI)
    fix i assume i: "i < length (pre @ suf)" and e: "\<exists>m. (pre @ suf) ! i = ErrorEvent m"
    have "\<not> i < length pre"
    proof
      assume "i < length pre"
      then have "(pre @ suf) ! i \<in> set pre" by (simp add: nth_append)
      with e assms(2) show False by auto
    qed
    then obtain k where k: "i = length pre + k" by (metis le_Suc_ex not_le_imp_less not_less)
    then have t: "(pre @ suf) ! i = suf ! k" "k < length suf" using i by auto
    from assms(3) show "Suc i < length (pre @ suf) \<and> (pre @ suf) ! Suc i = Done"
    proof
      assume "suf = [Done]"
      with t e show ?thesis by auto
    next
      assume "\<exists>m. suf = [ErrorEvent m, Done]"
      then obtain m where m: "suf = [ErrorEvent m, Done]" ..
      with t e have "k = 0" by (cases k) auto
      with k m show ?thesis by (simp add: nth_append)
    qed
  qed
qed

text \<open>
  C2. For every turn (any agent, any history), the stream events sent for the turn
  contain \<open>done\<close> exactly once, \<open>done\<close> is the last of them, and every \<open>error\<close> event is
  followed at once by \<open>done\<close>.
\<close>

theorem turn_done_once_last:
  "length (filter (\<lambda>e. e = Done) (fst (run_turn ag h))) = 1 \<and>
   fst (run_turn ag h) \<noteq> [] \<and>
   last (fst (run_turn ag h)) = Done \<and>
   (\<forall>i < length (fst (run_turn ag h)).
      (\<exists>m. fst (run_turn ag h) ! i = ErrorEvent m) \<longrightarrow>
      Suc i < length (fst (run_turn ag h)) \<and> fst (run_turn ag h) ! Suc i = Done)"
proof -
  let ?pre = "concat (map on_event (events (ag h)))"
  let ?tl = "case raised (ag h) of None \<Rightarrow> [Done] | Some err \<Rightarrow> [ErrorEvent (take 600 err), Done]"
  have 1: "Done \<notin> set ?pre" by (rule body_not_done)
  have 2: "\<forall>m. ErrorEvent m \<notin> set ?pre" by (simp add: on_event_not_error)
  have 3: "?tl = [Done] \<or> (\<exists>m. ?tl = [ErrorEvent m, Done])" by (cases "raised (ag h)") auto
  show ?thesis unfolding run_turn_shape using tail_props[OF 1 2 3] by blast
qed

theorem turn_done_once_last_witness:
  "fst (run_turn failing_agent [HumanMessage (lit ''list it'')]) =
     [ToolStartEvent (lit ''list_files'') (lit ''{}''),
      ErrorEvent (lit ''Traceback (most recent call last)''), Done] \<and>
   (\<exists>m. fst (run_turn failing_agent [HumanMessage (lit ''list it'')]) ! 1 = ErrorEvent m) \<and>
   fst (run_turn failing_agent [HumanMessage (lit ''list it'')]) ! 2 = Done \<and>
   last (fst (run_turn failing_agent [HumanMessage (lit ''list it'')])) = Done"
proof -
  have e: "fst (run_turn failing_agent [HumanMessage (lit ''list it'')]) =
     [ToolStartEvent (lit ''list_files'') (lit ''{}''),
      ErrorEvent (lit ''Traceback (most recent call last)''), Done]"
    by (simp add: run_turn_def failing_agent_def lit_def)
  show ?thesis
    using turn_done_once_last[of failing_agent "[HumanMessage (lit ''list it'')]"] e by simp
qed

text \<open>
  C10. For every turn, every \<open>token\<close> event carries a non-empty string, which is the
  content of a model stream chunk of the turn; a chunk whose content is the empty string
  or is not a string produces no event at all.
\<close>

theorem token_content_nonempty:
  "(\<forall>c. Token c \<in> set (fst (run_turn ag h)) \<longrightarrow>
        c \<noteq> [] \<and> ChatModelStream (Text c) \<in> set (events (ag h))) \<and>
   on_event (ChatModelStream (Text [])) = [] \<and>
   on_event (ChatModelStream Parts) = []"
proof -
  have a: "c \<noteq> [] \<and> e = ChatModelStream (Text c)" if "Token c \<in> set (on_event e)" for c e
    using that by (cases e) (auto split: content.splits if_splits)
  have "c \<noteq> [] \<and> ChatModelStream (Text c) \<in> set (events (ag h))"
    if "Token c \<in> set (fst (run_turn ag h))" for c
  proof -
    from that have "Token c \<in> set (concat (map on_event (events (ag h))))"
      unfolding run_turn_shape by (cases "raised (ag h)") auto
    then obtain e where "e \<in> set (events (ag h))" "Token c \<in> set (on_event e)" by auto
    with a[of c e] show ?thesis by auto
  qed
  then show ?thesis by simp
qed

theorem token_content_nonempty_witness:
  "fst (run_turn answering_agent [HumanMessage (lit ''What is 2 + 2?'')]) = [Token (lit ''4''), Done] \<and>
   Token (lit ''4'') \<in> set (fst (run_turn answering_agent [HumanMessage (lit ''What is 2 + 2?'')])) \<and>
   lit ''4'' \<noteq> []"
proof -
  have e: "fst (run_turn answering_agent [HumanMessage (lit ''What is 2 + 2?'')]) = [Token (lit ''4''), Done]"
    by (simp add: run_turn_def answering_agent_def lit_def)
  then have m: "Token (lit ''4'') \<in> set (fst (run_turn answering_agent [HumanMessage (lit ''What is 2 + 2?'')]))"
    by simp
  from token_content_nonempty[of answering_agent "[HumanMessage (lit ''What is 2 + 2?'')]"] m
  have "lit ''4'' \<noteq> []" by blast
  with e m show ?thesis by simp
qed

section \<open>Frames that start no turn\<close>

text \<open>
  A frame without a \<open>message\<close> member, and one whose message is empty or whitespace
  only, is skipped by \<open>continue\<close>: the connection goes on with the next frame, the
  history and what was sent unchanged.
\<close>

lemma strip_spaces: "\<forall>c \<in> set s. is_space c \<Longrightarrow> strip s = []"
proof -
  assume "\<forall>c \<in> set s. is_space c"
  then have d: "dropWhile is_space s = []" by (induction s) auto
  show ?thesis unfolding strip_def d by simp
qed

lemma frame_ignored:
  "user_text_of fr = Inr [] \<Longrightarrow> serve ag h out (TextFrame fr # rest) = serve ag h out rest"
  by simp

lemma blank_frames:
  "map_of (rev members) (lit ''message'') = None \<Longrightarrow> user_text_of (Json (JObject members)) = Inr []"
  "\<forall>c \<in> set s. is_space c \<Longrightarrow>
     map_of (rev members) (lit ''message'') = Some (JString s) \<Longrightarrow>
     user_text_of (Json (JObject members)) = Inr []"
  by (simp_all add: user_text_of_def strip_spaces)

text \<open>
  C3. The claim: every frame that is not a JSON object with a non-empty string
  \<open>message\<close> is ignored, and the connection goes on to await the next frame. The code
  at a frame that is not JSON: \<open>json.loads\<close> raises outside the inner \<open>try\<close>, the outer
  \<open>try\<close> handles \<open>WebSocketDisconnect\<close> only, and the exception leaves the handler; the
  well-formed message behind it is never answered. The same happens with
  \<open>AttributeError\<close> at a message that is not a string and at a JSON value that is not an
  object. For comparison, behind an object without \<open>message\<close> the next frame gets its
  turn.
\<close>

theorem malformed_frame_ends_connection:
  "websocket_endpoint ag
     [TextFrame NotJson, TextFrame (Json (JObject [(lit ''message'', JString (lit ''hi''))]))] =
     \<lparr>status = Left JSONDecodeError, history = [], sent = []\<rparr> \<and>
   websocket_endpoint ag
     [TextFrame (Json (JObject [(lit ''message'', JNumber (lit ''5''))])),
      TextFrame (Json (JObject [(lit ''message'', JString (lit ''hi''))]))] =
     \<lparr>status = Left AttributeError, history = [], sent = []\<rparr> \<and>
   websocket_endpoint ag
     [TextFrame (Json (JArray [])),
      TextFrame (Json (JObject [(lit ''message'', JString (lit ''hi''))]))] =
     \<lparr>status = Left AttributeError, history = [], sent = []\<rparr> \<and>
   status (websocket_endpoint ag
     [TextFrame (Json (JObject [])),
      TextFrame (Json (JObject [(lit ''message'', JString (lit ''hi''))]))]) = Awaiting \<and>
   sent (websocket_endpoint ag
     [TextFrame (Json (JObject [])),
      TextFrame (Json (JObject [(lit ''message'', JString (lit ''hi''))]))]) =
     fst (run_turn ag [HumanMessage (lit ''hi'')])"
  by (simp add: websocket_endpoint_def user_text_of_def strip_def is_space_def lit_def
      split: prod.splits)

section \<open>The scratch file of \<open>execute_python\<close>\<close>

lemma node_at_remove_same: "ap \<noteq> [] \<Longrightarrow> node_at (remove w ap) ap = None"
  by (simp add: node_at_def remove_def delete_conv')

lemma node_at_remove_other: "q \<noteq> ap \<Longrightarrow> node_at (remove w ap) q = node_at w q"
  by (simp add: node_at_def remove_def delete_conv')

lemma scratch_name_parts:
  "components scratch_name = scratch_place" "0 \<notin> set scratch_name" "scratch_name \<noteq> []"
  "hd scratch_name = 47" "butlast scratch_place = [lit ''tmp'']" "scratch_place \<noteq> []"
  "[lit ''tmp''] \<noteq> scratch_place" "lit ''tmp'' \<noteq> lit ''.''" "lit ''tmp'' \<noteq> lit ''..''"
  "lit ''tmpk3x9.py'' \<noteq> lit ''.''" "lit ''tmpk3x9.py'' \<noteq> lit ''..''"
  by (simp_all add: scratch_name_def scratch_place_def components_def lit_def)

lemma resolve_scratch:
  assumes "node_at w [lit ''tmp''] = Some Dir"
  shows "resolve w scratch_name = Inr scratch_place"
proof -
  have "walk w scratch_name [] scratch_place = Inr scratch_place"
    using assms unfolding scratch_place_def
    by (simp add: scratch_name_parts node_at_def)
  then show ?thesis
    by (simp add: resolve_def start_dir_def scratch_name_parts)
qed

lemma tmp_world_nodes:
  "node_at tmp_world [lit ''tmp''] = Some Dir" "node_at tmp_world scratch_place = None"
  by (simp_all add: node_at_def tmp_world_def scratch_place_def lit_def)

lemma mkstemp_tmp_world:
  "mkstemp tmp_world [scratch_name] =
     (Inr (scratch_name, scratch_place), put tmp_world scratch_place (File []))"
  by (simp add: resolve_scratch tmp_world_nodes scratch_name_parts)


lemma scratch_in_tmp:
  assumes "node_at w [lit ''tmp''] = Some Dir"
  shows "node_at (put w scratch_place n) [lit ''tmp''] = Some Dir"
    and "node_at (remove w scratch_place) [lit ''tmp''] = Some Dir"
  using assms by (simp_all add: node_at_put_other node_at_remove_other scratch_name_parts)

lemma cleanup_None: "cleanup w None r = (Inr r, w)"
  by (simp add: cleanup_def)

lemma cleanup_file:
  assumes "node_at w [lit ''tmp''] = Some Dir" "node_at w scratch_place = Some (File bs)"
  shows "cleanup w (Some scratch_name) r = (Inr r, remove w scratch_place)"
  using assms
  by (simp add: cleanup_def os_path_exists_def os_unlink_def resolve_scratch scratch_name_parts)

lemma cleanup_dir:
  assumes "node_at w [lit ''tmp''] = Some Dir" "node_at w scratch_place = Some Dir"
  shows "cleanup w (Some scratch_name) r = (Inl (IsADirectoryError scratch_name), w)"
  using assms
  by (simp add: cleanup_def os_path_exists_def os_unlink_def resolve_scratch scratch_name_parts)

lemma script_encodes: "utf8_encode self_replacing_script = Some self_replacing_script"
  by (rule utf8_encode_ascii) (simp add: self_replacing_script_def lit_def)

lemma print_encodes: "utf8_encode (lit ''print(1)'') = Some (lit ''print(1)'')"
  by (rule utf8_encode_ascii) (simp add: lit_def)

lemma strip_ok: "strip (lit ''ok'' @ [10]) = lit ''ok''"
  by (simp add: strip_def is_space_def lit_def)

lemma execute_python_raises:
  assumes "fst (execute_python ev w code) = Inl e"
  shows "\<exists>w' p. os_path_exists w' p \<and> os_unlink w' p = Inl e"
proof -
  have c: "\<exists>p. os_path_exists w' p \<and> os_unlink w' p = Inl e"
    if "fst (cleanup w' t r) = Inl e" for w' t r
    using that by (auto simp: cleanup_def split: option.splits if_splits sum.splits)
  have "\<exists>t r w'. execute_python ev w code = cleanup w' t r"
    unfolding execute_python_def
    by (simp split: prod.splits proc_outcome.splits sum.splits option.splits) blast
  then obtain t r w' where "execute_python ev w code = cleanup w' t r" by blast
  with assms c[of w' t r] show ?thesis by auto
qed

text \<open>
  C4. The claim: every tool call returns a result string and never raises an exception
  that escapes to its caller. The three file tools do (\<open>read_file_returns\<close>,
  \<open>write_file_returns\<close>, \<open>list_files_returns\<close>), and \<open>execute_python\<close> handles every
  exception of its \<open>try\<close> block; what it can still raise is what \<open>os.unlink\<close> raises in
  the \<open>finally\<close> clause, which no handler covers (\<open>execute_python_raises\<close>). The code at
  a script that replaces its own file by a directory: \<open>os.path.exists\<close> is true,
  \<open>os.unlink\<close> raises \<open>IsADirectoryError\<close>, and the exception leaves the tool.
\<close>

theorem execute_python_unlink_raises:
  "fst (execute_python self_replacing_env tmp_world self_replacing_script) =
     Inl (IsADirectoryError scratch_name)"
proof -
  let ?w1 = "put tmp_world scratch_place (File [])"
  let ?w2 = "put ?w1 scratch_place (File self_replacing_script)"
  let ?w3 = "put (remove ?w2 scratch_place) scratch_place Dir"
  have t2: "node_at ?w2 [lit ''tmp''] = Some Dir"
    by (intro scratch_in_tmp tmp_world_nodes)
  have r: "run_python self_replacing_env ?w2 scratch_name = (Completed 0 [] [], ?w3)"
    by (simp add: self_replacing_env_def resolve_scratch[OF t2])
  have t3: "node_at ?w3 [lit ''tmp''] = Some Dir"
    by (intro scratch_in_tmp tmp_world_nodes)
  have d3: "node_at ?w3 scratch_place = Some Dir"
    by (simp add: node_at_put_same scratch_name_parts)
  have n: "tmp_names self_replacing_env = [scratch_name]" by (simp add: self_replacing_env_def)
  show ?thesis
    unfolding execute_python_def n mkstemp_tmp_world
    by (simp add: script_encodes r cleanup_dir[OF t3 d3])
qed

text \<open>
  C6. The claim: the scratch file is removed before \<open>execute_python\<close> returns, on every
  exit path. The code at a script body with a lone surrogate (\<open>U+D800\<close>): the file is
  created, \<open>f.write(code)\<close> raises \<open>UnicodeEncodeError\<close> before \<open>tmp_path = f.name\<close> is
  reached, the handler returns the error string, and the \<open>finally\<close> clause finds
  \<open>tmp_path\<close> still \<open>None\<close>: the empty scratch file stays on disk. For comparison, after
  a script that encodes the file is gone.
\<close>

theorem execute_python_scratch_file_left:
  "fst (execute_python quiet_env tmp_world [55296]) = Inr (lit ''Error: surrogates not allowed'') \<and>
   os_path_exists (snd (execute_python quiet_env tmp_world [55296])) scratch_name \<and>
   os_open_r (snd (execute_python quiet_env tmp_world [55296])) scratch_name = Inr [] \<and>
   fst (execute_python quiet_env tmp_world (lit ''print(1)'')) = Inr (lit ''ok'') \<and>
   \<not> os_path_exists (snd (execute_python quiet_env tmp_world (lit ''print(1)''))) scratch_name"
proof -
  let ?w1 = "put tmp_world scratch_place (File [])"
  let ?w2 = "put ?w1 scratch_place (File (lit ''print(1)''))"
  have n: "tmp_names quiet_env = [scratch_name]" by (simp add: quiet_env_def)
  have s: "utf8_encode [55296] = None" by (simp add: encode_char_def is_surrogate_def)
  have m: "lit ''Error: '' @ exc_str tmp_world UnicodeEncodeError = lit ''Error: surrogates not allowed''"
    by (simp add: tmp_world_def cpython_str_def lit_def)
  have a: "execute_python quiet_env tmp_world [55296] =
             (Inr (lit ''Error: surrogates not allowed''), ?w1)"
    unfolding execute_python_def n mkstemp_tmp_world
    by (simp add: encode_char_def is_surrogate_def cleanup_None m)
  have t1: "node_at ?w1 [lit ''tmp''] = Some Dir"
    by (intro scratch_in_tmp tmp_world_nodes)
  have f1: "node_at ?w1 scratch_place = Some (File [])"
    by (simp add: node_at_put_same scratch_name_parts)
  have e1: "os_path_exists ?w1 scratch_name"
    by (simp add: os_path_exists_def resolve_scratch[OF t1] f1)
  have o1: "os_open_r ?w1 scratch_name = Inr []"
    by (simp add: os_open_r_def resolve_scratch[OF t1] f1)
  have r: "run_python quiet_env ?w2 scratch_name = (Completed 0 (lit ''ok'' @ [10]) [], ?w2)"
    by (simp add: quiet_env_def)
  have t2: "node_at ?w2 [lit ''tmp''] = Some Dir"
    by (intro scratch_in_tmp tmp_world_nodes)
  have f2: "node_at ?w2 scratch_place = Some (File (lit ''print(1)''))"
    by (simp add: node_at_put_same scratch_name_parts)
  have k: "lit ''ok'' \<noteq> []" by (simp add: lit_def)
  have b: "execute_python quiet_env tmp_world (lit ''print(1)'') =
             (Inr (lit ''ok''), remove ?w2 scratch_place)"
    unfolding execute_python_def n mkstemp_tmp_world
    by (simp add: print_encodes r strip_ok k cleanup_file[OF t2 f2])
  have t3: "node_at (remove ?w2 scratch_place) [lit ''tmp''] = Some Dir"
    by (intro scratch_in_tmp tmp_world_nodes)
  have e2: "\<not> os_path_exists (remove ?w2 scratch_place) scratch_name"
    by (simp add: os_path_exists_def resolve_scratch[OF t3] node_at_remove_same scratch_name_parts)
  show ?thesis using a b e1 o1 e2 by simp
qed

end
